theory Spec2Isabelle
  imports Complex_Main "HOL-Library.Log_Nat"
begin

section \<open>Fraud Risk Intelligence API: a model of \<^verbatim>\<open>backend/main.py\<close>\<close>

text \<open>
  The module scores a transaction with a pre-trained classifier, stores the verdict in a
  MongoDB collection and reports counts over that collection. The classifier
  (\<^verbatim>\<open>model\<close>), the sorting routine of numpy (\<^verbatim>\<open>np.argsort\<close>), the
  random source, the clock and the availability of the database are not part of the
  module: they are arguments of the functions below.

  Numbers. A Python float is modelled by the real number it denotes (the classifier is
  taken to return a finite number, never NaN). Comparisons of floats are exact, so they
  are comparisons of reals, and a float literal stands for the double it is read as.
  The dashboard divides, multiplies and then rounds to two decimals: there the rounding
  of each double operation can decide the second decimal, so the quotient and the
  product are rounded to the nearest double (\<open>nearest_double\<close> below). The
  generator's \<^verbatim>\<open>a + (b - a) * random()\<close> is the exact real result, and
  \<^verbatim>\<open>round\<close> gives the decimal number that it rounds to, of which Python
  returns the nearest double.
\<close>

subsection \<open>Values, documents and the collection\<close>

datatype error = ScoringError | PersistenceError | IndexError

text \<open>
  A Python dict keeps its keys in insertion order: it is an association list. The values
  that occur in the documents of this module are floats, strings, lists of strings, the
  dict of the 30 features, a \<^verbatim>\<open>datetime\<close> and the \<^verbatim>\<open>ObjectId\<close> that the
  driver adds.
\<close>

datatype val =
    Float real
  | Str string
  | StrList "string list"
  | Dict "(string \<times> real) list"
  | Datetime nat
  | ObjectId nat

type_synonym doc = "(string \<times> val) list"

text \<open>The collection \<^verbatim>\<open>db["transactions"]\<close>: its documents, oldest first.\<close>

type_synonym store = "doc list"

text \<open>
  What one call reads from outside the module: the value of
  \<^verbatim>\<open>datetime.utcnow()\<close>, whether \<^verbatim>\<open>insert_one\<close> raises, and the
  \<^verbatim>\<open>ObjectId\<close> the driver generates for the new document.
\<close>

record env =
  utcnow :: nat
  insert_fails :: bool
  object_id :: nat

text \<open>
  \<^verbatim>\<open>collection.insert_one(document)\<close>: the driver adds the key \<^verbatim>\<open>_id\<close> to a
  document that has none and appends the document; a failed insert leaves the collection
  as it was and raises. Where the key stands in the stored document cannot be observed:
  the one function that reads documents removes it.
\<close>

definition insert_one :: "env \<Rightarrow> doc \<Rightarrow> store \<Rightarrow> error + store" where
  "insert_one w document collection =
     (if insert_fails w then Inl PersistenceError
      else Inr (collection @ [document @ [(''_id'', ObjectId (object_id w))]]))"

text \<open>
  \<^verbatim>\<open>collection.count_documents(flt)\<close> for a filter of equalities on top-level keys:
  a document matches when it has every key of the filter with the filter's value.
\<close>

definition matches :: "doc \<Rightarrow> doc \<Rightarrow> bool" where
  "matches flt d = list_all (\<lambda>kv. map_of d (fst kv) = Some (snd kv)) flt"

definition count_documents :: "doc \<Rightarrow> store \<Rightarrow> nat" where
  "count_documents flt collection = length (filter (matches flt) collection)"

subsection \<open>The classifier and numpy\<close>

text \<open>
  \<^verbatim>\<open>model\<close> is loaded from \<^verbatim>\<open>fraud_model.pkl\<close>. \<open>predict_proba m features\<close> is
  the entry \<^verbatim>\<open>model.predict_proba(features)[0][1]\<close> for the single row
  \<open>features\<close>, or the exception the call raises; \<open>feature_importances m\<close> is the
  array \<^verbatim>\<open>model.feature_importances_\<close>.
\<close>

record classifier =
  predict_proba :: "real list \<Rightarrow> error + real"
  feature_importances :: "real list"

text \<open>
  \<^verbatim>\<open>np.argsort\<close> is an argument \<open>argsort\<close> of the scoring function. Its contract
  on an array \<open>ws\<close>: the result is a permutation of the indices of \<open>ws\<close> (sorted, it is
  \<open>[0..<length ws]\<close>) that lists the entries in ascending order. The order among equal entries is not fixed (the default
  sort of numpy is not stable).
\<close>

definition is_argsort_of :: "real list \<Rightarrow> nat list \<Rightarrow> bool" where
  "is_argsort_of ws idx \<longleftrightarrow>
     sort idx = [0..<length ws] \<and> sorted (map (\<lambda>i. ws ! i) idx)"

text \<open>A stable argsort, by insertion: one function that meets the contract.\<close>

definition stable_argsort :: "real list \<Rightarrow> nat list" where
  "stable_argsort ws = sort_key (\<lambda>i. ws ! i) [0..<length ws]"

subsection \<open>Python built-ins\<close>

text \<open>
  \<^verbatim>\<open>round(x, n)\<close> on a float rounds the exact value of \<open>x\<close> to \<open>n\<close> decimals,
  ties to the even digit. The value here is that decimal number (Python returns the
  double nearest to it).
\<close>

definition round_half_even :: "real \<Rightarrow> int" where
  "round_half_even x =
     (let f = \<lfloor>x\<rfloor>; r = x - of_int f
      in if r < 1 / 2 then f else if 1 / 2 < r then f + 1
         else if even f then f else f + 1)"

definition py_round :: "real \<Rightarrow> nat \<Rightarrow> real" where
  "py_round x n = of_int (round_half_even (x * 10 ^ n)) / 10 ^ n"

text \<open>
  Double arithmetic. An operation on doubles returns the double nearest to the exact
  result, ties to the even mantissa. For \<open>x > 0\<close>, \<open>binade x\<close> is the exponent
  \<open>e\<close> with \<open>2 powi e \<le> x < 2 powi (e + 1)\<close>; the doubles of that binade are
  the multiples of \<open>2 powi (e - 52)\<close>, and the subnormal doubles are the multiples
  of \<open>2 powi (- 1074)\<close>. Results beyond the largest double do not occur in this
  module and are not modelled.
  \<^verbatim>\<open>a / b\<close> on two Python integers is \<open>nearest_double (a / b)\<close>, and
  \<^verbatim>\<open>x * 100\<close> on a float is \<open>nearest_double (x * 100)\<close>.
\<close>

definition binade :: "real \<Rightarrow> int" where
  "binade x = (if 1 \<le> x then bitlen \<lfloor>x\<rfloor> - 1 else - bitlen (\<lceil>1 / x\<rceil> - 1))"

definition nearest_double :: "real \<Rightarrow> real" where
  "nearest_double x =
     (if x = 0 then 0
      else let e = max (binade \<bar>x\<bar> - 52) (- 1074)
           in of_int (round_half_even (x / 2 powi e)) * 2 powi e)"

text \<open>\<^verbatim>\<open>xs[i]\<close> for an index \<open>i \<ge> 0\<close>: out of range raises \<^verbatim>\<open>IndexError\<close>.\<close>

definition getitem :: "'a list \<Rightarrow> nat \<Rightarrow> error + 'a" where
  "getitem xs i = (if i < length xs then Inr (xs ! i) else Inl IndexError)"

text \<open>The comprehension \<^verbatim>\<open>[feature_names[i] for i in top_indices]\<close>.\<close>

fun names_at :: "string list \<Rightarrow> nat list \<Rightarrow> error + string list" where
  "names_at feature_names [] = Inr []"
| "names_at feature_names (i # top_indices) =
     (case getitem feature_names i of
        Inl e \<Rightarrow> Inl e
      | Inr x \<Rightarrow>
          (case names_at feature_names top_indices of
             Inl e \<Rightarrow> Inl e
           | Inr xs \<Rightarrow> Inr (x # xs)))"

text \<open>
  The float literal \<^verbatim>\<open>0.40\<close> is read as the double nearest to \<open>2/5\<close>, which is
  \<open>3602879701896397 / 2 ^ 53\<close>; \<^verbatim>\<open>0.75\<close> is a double itself.
\<close>

definition float_0_40 :: real where
  "float_0_40 = 3602879701896397 / 9007199254740992"

subsection \<open>The request schema\<close>

record TransactionInput =
  Time :: real
  V1 :: real
  V2 :: real
  V3 :: real
  V4 :: real
  V5 :: real
  V6 :: real
  V7 :: real
  V8 :: real
  V9 :: real
  V10 :: real
  V11 :: real
  V12 :: real
  V13 :: real
  V14 :: real
  V15 :: real
  V16 :: real
  V17 :: real
  V18 :: real
  V19 :: real
  V20 :: real
  V21 :: real
  V22 :: real
  V23 :: real
  V24 :: real
  V25 :: real
  V26 :: real
  V27 :: real
  V28 :: real
  Amount :: real

text \<open>\<^verbatim>\<open>transaction.dict()\<close>: the fields in the order of their declaration.\<close>

definition dict :: "TransactionInput \<Rightarrow> (string \<times> real) list" where
  "dict t =
      [(''Time'', Time t), (''V1'', V1 t), (''V2'', V2 t), (''V3'', V3 t), (''V4'', V4 t),
       (''V5'', V5 t), (''V6'', V6 t), (''V7'', V7 t), (''V8'', V8 t), (''V9'', V9 t),
       (''V10'', V10 t), (''V11'', V11 t), (''V12'', V12 t), (''V13'', V13 t),
       (''V14'', V14 t), (''V15'', V15 t), (''V16'', V16 t), (''V17'', V17 t),
       (''V18'', V18 t), (''V19'', V19 t), (''V20'', V20 t), (''V21'', V21 t),
       (''V22'', V22 t), (''V23'', V23 t), (''V24'', V24 t), (''V25'', V25 t),
       (''V26'', V26 t), (''V27'', V27 t), (''V28'', V28 t), (''Amount'', Amount t)]"

subsection \<open>The scoring endpoint\<close>

text \<open>
  \<^verbatim>\<open>POST /score-transaction\<close>. The result is the response, or the exception that
  aborts the request, together with the collection after the call.
\<close>

definition score_transaction ::
  "(real list \<Rightarrow> nat list) \<Rightarrow> classifier \<Rightarrow> env \<Rightarrow> TransactionInput \<Rightarrow> store
     \<Rightarrow> (error + doc) \<times> store" where
  "score_transaction argsort m w transaction collection =
     (let features = map snd (dict transaction) in
      case predict_proba m features of
        Inl e \<Rightarrow> (Inl e, collection)
      | Inr probability \<Rightarrow>
          let (risk_level, decision) =
                (if probability > 0.75 then (''High'', ''Block'')
                 else if probability > float_0_40 then (''Medium'', ''Review'')
                 else (''Low'', ''Approve''));
              feature_names = map fst (dict transaction);
              importances = feature_importances m;
              top_indices = (let a = argsort importances in drop (length a - 3) a)
          in (case names_at feature_names top_indices of
               Inl e \<Rightarrow> (Inl e, collection)
             | Inr top_features \<Rightarrow>
                 (case insert_one w
                         [(''input'', Dict (dict transaction)),
                          (''fraud_probability'', Float (py_round probability 4)),
                          (''risk_level'', Str risk_level),
                          (''decision'', Str decision),
                          (''top_risk_indicators'', StrList top_features),
                          (''timestamp'', Datetime (utcnow w))]
                         collection of
                    Inl e \<Rightarrow> (Inl e, collection)
                  | Inr collection' \<Rightarrow>
                      (Inr [(''fraud_probability'', Float (py_round probability 4)),
                            (''risk_level'', Str risk_level),
                            (''decision'', Str decision),
                            (''top_risk_indicators'', StrList top_features)],
                       collection'))))"

subsection \<open>Listing the transactions\<close>

text \<open>
  \<^verbatim>\<open>GET /transactions\<close>: \<^verbatim>\<open>find({}, {"_id": 0})\<close> returns every document,
  in the order of insertion, without its key \<^verbatim>\<open>_id\<close>.
\<close>

definition get_transactions :: "store \<Rightarrow> doc list" where
  "get_transactions collection = map (filter (\<lambda>kv. fst kv \<noteq> ''_id'')) collection"

subsection \<open>The dashboard\<close>

record risk_distribution =
  high :: nat
  medium :: nat
  low :: nat

record decision_distribution =
  approved :: nat
  blocked :: nat
  review :: nat

record dashboard =
  total_transactions :: nat
  risk_distribution :: risk_distribution
  decision_distribution :: decision_distribution
  approval_rate_percent :: real

text \<open>
  \<^verbatim>\<open>GET /dashboard\<close>, on one state of the collection: the seven counts are taken
  with no insertion between them. \<^verbatim>\<open>approved / total\<close> is the true division of
  two Python integers, a double; so is its product with 100, which is then rounded to
  two decimals.
\<close>

definition dashboard_summary :: "store \<Rightarrow> dashboard" where
  "dashboard_summary collection =
     (let total = count_documents [] collection;
          n_high = count_documents [(''risk_level'', Str ''High'')] collection;
          n_medium = count_documents [(''risk_level'', Str ''Medium'')] collection;
          n_low = count_documents [(''risk_level'', Str ''Low'')] collection;
          n_approved = count_documents [(''decision'', Str ''Approve'')] collection;
          n_blocked = count_documents [(''decision'', Str ''Block'')] collection;
          n_review = count_documents [(''decision'', Str ''Review'')] collection;
          approval_rate =
            (if total > 0
             then py_round (nearest_double (nearest_double (real n_approved / real total) * 100)) 2
             else 0)
      in \<lparr>total_transactions = total,
          risk_distribution = \<lparr>high = n_high, medium = n_medium, low = n_low\<rparr>,
          decision_distribution =
            \<lparr>approved = n_approved, blocked = n_blocked, review = n_review\<rparr>,
          approval_rate_percent = approval_rate\<rparr>)"

subsection \<open>The transaction generator\<close>

text \<open>
  \<^verbatim>\<open>random.uniform(a, b)\<close> is \<^verbatim>\<open>a + (b - a) * self.random()\<close>, where
  \<^verbatim>\<open>random()\<close> returns a float \<open>u\<close> with \<open>0 \<le> u < 1\<close>. The generator draws
  30 such numbers, in the order of the keys: \<open>rnd i\<close> is the \<open>i\<close>-th of them.
\<close>

definition uniform :: "real \<Rightarrow> real \<Rightarrow> real \<Rightarrow> real" where
  "uniform a b u = a + (b - a) * u"

definition generate_random_transaction :: "(nat \<Rightarrow> real) \<Rightarrow> (string \<times> real) list" where
  "generate_random_transaction rnd =
      [(''Time'', uniform 0 100000 (rnd 0)), (''V1'', uniform (- 5) 5 (rnd 1)),
       (''V2'', uniform (- 5) 5 (rnd 2)), (''V3'', uniform (- 5) 5 (rnd 3)),
       (''V4'', uniform (- 5) 5 (rnd 4)), (''V5'', uniform (- 5) 5 (rnd 5)),
       (''V6'', uniform (- 5) 5 (rnd 6)), (''V7'', uniform (- 5) 5 (rnd 7)),
       (''V8'', uniform (- 5) 5 (rnd 8)), (''V9'', uniform (- 5) 5 (rnd 9)),
       (''V10'', uniform (- 5) 5 (rnd 10)), (''V11'', uniform (- 5) 5 (rnd 11)),
       (''V12'', uniform (- 5) 5 (rnd 12)), (''V13'', uniform (- 5) 5 (rnd 13)),
       (''V14'', uniform (- 5) 5 (rnd 14)), (''V15'', uniform (- 5) 5 (rnd 15)),
       (''V16'', uniform (- 5) 5 (rnd 16)), (''V17'', uniform (- 5) 5 (rnd 17)),
       (''V18'', uniform (- 5) 5 (rnd 18)), (''V19'', uniform (- 5) 5 (rnd 19)),
       (''V20'', uniform (- 5) 5 (rnd 20)), (''V21'', uniform (- 5) 5 (rnd 21)),
       (''V22'', uniform (- 5) 5 (rnd 22)), (''V23'', uniform (- 5) 5 (rnd 23)),
       (''V24'', uniform (- 5) 5 (rnd 24)), (''V25'', uniform (- 5) 5 (rnd 25)),
       (''V26'', uniform (- 5) 5 (rnd 26)), (''V27'', uniform (- 5) 5 (rnd 27)),
       (''V28'', uniform (- 5) 5 (rnd 28)), (''Amount'', uniform 1 10000 (rnd 29))]"

subsection \<open>The background loop\<close>

text \<open>
  \<^verbatim>\<open>auto_generate_transactions\<close> is \<^verbatim>\<open>while True\<close> around one iteration, with
  no exception handler. Each iteration reads its random numbers and its \<open>env\<close>; the
  loop is run on the list of what the iterations read, one entry for one iteration. The
  result is \<open>None\<close> when every iteration of the list has completed (the task is
  sleeping before its next iteration), \<open>Some e\<close> when the exception \<open>e\<close> has
  left the loop and ended the task; with it comes the collection at that point.
\<close>

fun auto_generate_transactions ::
  "classifier \<Rightarrow> ((nat \<Rightarrow> real) \<times> env) list \<Rightarrow> store \<Rightarrow> error option \<times> store" where
  "auto_generate_transactions m [] collection = (None, collection)"
| "auto_generate_transactions m ((rnd, w) # rest) collection =
     (let transaction = generate_random_transaction rnd;
          features = map snd transaction in
      case predict_proba m features of
        Inl e \<Rightarrow> (Some e, collection)
      | Inr probability \<Rightarrow>
          let (risk_level, decision) =
                (if probability > 0.75 then (''High'', ''Block'')
                 else if probability > float_0_40 then (''Medium'', ''Review'')
                 else (''Low'', ''Approve''))
          in (case insert_one w
                     [(''input'', Dict transaction),
                      (''fraud_probability'', Float (py_round probability 4)),
                      (''risk_level'', Str risk_level),
                      (''decision'', Str decision),
                      (''timestamp'', Datetime (utcnow w))]
                     collection of
                Inl e \<Rightarrow> (Some e, collection)
              | Inr collection' \<Rightarrow> auto_generate_transactions m rest collection'))"

subsection \<open>The system over time\<close>

text \<open>
  What changes the collection: a request to the scoring endpoint, or some iterations of
  the background loop. \<open>run_events\<close> gives the collection after a sequence of them.
\<close>

datatype event =
    Request env TransactionInput
  | Iterations "((nat \<Rightarrow> real) \<times> env) list"

fun run_events ::
  "(real list \<Rightarrow> nat list) \<Rightarrow> classifier \<Rightarrow> event list \<Rightarrow> store \<Rightarrow> store" where
  "run_events argsort m [] collection = collection"
| "run_events argsort m (Request w t # evs) collection =
     run_events argsort m evs (snd (score_transaction argsort m w t collection))"
| "run_events argsort m (Iterations rws # evs) collection =
     run_events argsort m evs (snd (auto_generate_transactions m rws collection))"

subsection \<open>Inputs for the examples\<close>

text \<open>The names of the 30 fields, in the order of the schema.\<close>

definition field_names :: "string list" where
  "field_names =
      [''Time'', ''V1'', ''V2'', ''V3'', ''V4'', ''V5'', ''V6'', ''V7'', ''V8'', ''V9'',
       ''V10'', ''V11'', ''V12'', ''V13'', ''V14'', ''V15'', ''V16'', ''V17'', ''V18'',
       ''V19'', ''V20'', ''V21'', ''V22'', ''V23'', ''V24'', ''V25'', ''V26'', ''V27'',
       ''V28'', ''Amount'']"

text \<open>Importance weights with \<open>V12\<close>, \<open>V17\<close> and \<open>V14\<close> ahead, in that order.\<close>

definition example_importances :: "real list" where
  "example_importances =
      [1 / 100, 1 / 100, 1 / 100, 1 / 100, 1 / 100, 1 / 100, 1 / 100, 1 / 100, 1 / 100,
       1 / 100, 1 / 100, 1 / 100, 1 / 10, 1 / 100, 3 / 10, 1 / 100, 1 / 100, 1 / 5,
       1 / 100, 1 / 100, 1 / 100, 1 / 100, 1 / 100, 1 / 100, 1 / 100, 1 / 100, 1 / 100,
       1 / 100, 1 / 100, 1 / 100]"

text \<open>A stub classifier that returns \<open>p\<close> for every row.\<close>

definition stub_classifier :: "real \<Rightarrow> classifier" where
  "stub_classifier p =
     \<lparr>predict_proba = (\<lambda>features. Inr p), feature_importances = example_importances\<rparr>"

text \<open>A classifier that raises on a row whose first feature (\<open>Time\<close>) exceeds 50000.\<close>

definition picky_classifier :: classifier where
  "picky_classifier =
     \<lparr>predict_proba =
        (\<lambda>features. case features of
             [] \<Rightarrow> Inl ScoringError
           | x # _ \<Rightarrow> if x > 50000 then Inl ScoringError else Inr (9 / 10)),
      feature_importances = example_importances\<rparr>"

definition example_env :: env where
  "example_env = \<lparr>utcnow = 1700000000, insert_fails = False, object_id = 7\<rparr>"


text \<open>The transaction with \<open>Time = 0\<close>, every \<open>Vi = 0\<close> and \<open>Amount = 100\<close>.\<close>

definition example_transaction :: TransactionInput where
  "example_transaction =
      \<lparr>Time = 0, V1 = 0, V2 = 0, V3 = 0, V4 = 0, V5 = 0, V6 = 0, V7 = 0, V8 = 0,
       V9 = 0, V10 = 0, V11 = 0, V12 = 0, V13 = 0, V14 = 0, V15 = 0, V16 = 0, V17 = 0,
       V18 = 0, V19 = 0, V20 = 0, V21 = 0, V22 = 0, V23 = 0, V24 = 0, V25 = 0, V26 = 0,
       V27 = 0, V28 = 0, Amount = 100\<rparr>"

text \<open>The same transaction, sent late in the day: \<open>Time = 90000\<close>.\<close>

definition late_transaction :: TransactionInput where
  "late_transaction = example_transaction\<lparr>Time := 90000\<rparr>"

text \<open>
  The transaction that the generator produces when every random number is \<open>1/2\<close>.
\<close>

definition midpoint_transaction :: TransactionInput where
  "midpoint_transaction = example_transaction\<lparr>Time := 50000, Amount := 10001 / 2\<rparr>"

text \<open>
  A document carries a verdict when its risk level and its decision are one of the three
  pairs that the scoring code writes.
\<close>

definition has_verdict :: "doc \<Rightarrow> bool" where
  "has_verdict d \<longleftrightarrow>
     (map_of d ''risk_level'', map_of d ''decision'') \<in>
       {(Some (Str ''High''), Some (Str ''Block'')),
        (Some (Str ''Medium''), Some (Str ''Review'')),
        (Some (Str ''Low''), Some (Str ''Approve''))}"

section \<open>Properties\<close>

subsection \<open>What a successful request computed\<close>

lemma float_0_40_bounds:
  "2 / 5 < float_0_40" "float_0_40 < 0.75" "float_0_40 - 2 / 5 < 1 / 2 ^ 55"
  by (simp_all add: float_0_40_def)

lemma score_transaction_InrE:
  assumes "score_transaction argsort m w t c = (Inr r, c')"
  obtains p tf where
    "predict_proba m (map snd (dict t)) = Inr p"
    "names_at (map fst (dict t))
       (drop (length (argsort (feature_importances m)) - 3)
          (argsort (feature_importances m))) = Inr tf"
    "\<not> insert_fails w"
    "r = [(''fraud_probability'', Float (py_round p 4)),
          (''risk_level'',
             Str (if p > 0.75 then ''High'' else if p > float_0_40 then ''Medium'' else ''Low'')),
          (''decision'',
             Str (if p > 0.75 then ''Block'' else if p > float_0_40 then ''Review'' else ''Approve'')),
          (''top_risk_indicators'', StrList tf)]"
    "c' = c @ [[(''input'', Dict (dict t)),
          (''fraud_probability'', Float (py_round p 4)),
          (''risk_level'',
             Str (if p > 0.75 then ''High'' else if p > float_0_40 then ''Medium'' else ''Low'')),
          (''decision'',
             Str (if p > 0.75 then ''Block'' else if p > float_0_40 then ''Review'' else ''Approve'')),
          (''top_risk_indicators'', StrList tf),
          (''timestamp'', Datetime (utcnow w)),
          (''_id'', ObjectId (object_id w))]]"
  using assms
  unfolding score_transaction_def insert_one_def Let_def
  by (auto split: sum.splits if_splits)

lemma score_transaction_store:
  "snd (score_transaction argsort m w t c) = c \<or>
   (\<exists>r. score_transaction argsort m w t c = (Inr r, snd (score_transaction argsort m w t c)))"
  unfolding score_transaction_def insert_one_def Let_def
  by (auto split: sum.splits if_splits)

lemma dict_keys: "map fst (dict t) = field_names"
  by (simp add: dict_def field_names_def)

lemma length_field_names: "length field_names = 30"
  by (simp add: field_names_def)

lemma distinct_field_names: "distinct field_names"
  by (simp add: field_names_def)

lemma names_at_Inr:
  "\<forall>i \<in> set top_indices. i < length ns \<Longrightarrow>
     names_at ns top_indices = Inr (map (\<lambda>i. ns ! i) top_indices)"
  by (induction top_indices) (simp_all add: getitem_def)

subsection \<open>One iteration of the loop, and several\<close>

lemma auto_generate_transactions_step:
  "auto_generate_transactions m ((rnd, w) # rest) c =
     (case predict_proba m (map snd (generate_random_transaction rnd)) of
        Inl e \<Rightarrow> (Some e, c)
      | Inr p \<Rightarrow>
          if insert_fails w then (Some PersistenceError, c)
          else auto_generate_transactions m rest
            (c @ [[(''input'', Dict (generate_random_transaction rnd)),
                   (''fraud_probability'', Float (py_round p 4)),
                   (''risk_level'',
                      Str (if p > 0.75 then ''High''
                           else if p > float_0_40 then ''Medium'' else ''Low'')),
                   (''decision'',
                      Str (if p > 0.75 then ''Block''
                           else if p > float_0_40 then ''Review'' else ''Approve'')),
                   (''timestamp'', Datetime (utcnow w)),
                   (''_id'', ObjectId (object_id w))]]))"
  by (simp add: Let_def insert_one_def split: sum.splits)


lemma auto_generate_transactions_adds:
  "auto_generate_transactions m rws c = (r, c') \<Longrightarrow>
   \<exists>new. c' = c @ new \<and>
     list_all (\<lambda>d. map fst d =
         [''input'', ''fraud_probability'', ''risk_level'', ''decision'', ''timestamp'', ''_id'']
       \<and> has_verdict d) new"
proof (induction rws arbitrary: c)
  case Nil
  then show ?case by simp
next
  case (Cons a rws)
  obtain rnd w where a: "a = (rnd, w)" by (cases a)
  show ?case
  proof (cases "predict_proba m (map snd (generate_random_transaction rnd))")
    case (Inl e)
    with Cons.prems a show ?thesis by simp
  next
    case (Inr p)
    show ?thesis
    proof (cases "insert_fails w")
      case True
      with Cons.prems a Inr show ?thesis
        by (simp add: insert_one_def Let_def split: if_splits prod.splits)
    next
      case False
      let ?d = "[(''input'', Dict (generate_random_transaction rnd)),
          (''fraud_probability'', Float (py_round p 4)),
          (''risk_level'',
             Str (if p > 0.75 then ''High'' else if p > float_0_40 then ''Medium'' else ''Low'')),
          (''decision'',
             Str (if p > 0.75 then ''Block'' else if p > float_0_40 then ''Review'' else ''Approve'')),
          (''timestamp'', Datetime (utcnow w)),
          (''_id'', ObjectId (object_id w))]"
      from Cons.prems a Inr False
      have "auto_generate_transactions m rws (c @ [?d]) = (r, c')"
        by (simp add: insert_one_def Let_def split: if_splits)
      from Cons.IH [OF this] obtain new where "c' = (c @ [?d]) @ new"
        and "list_all (\<lambda>d. map fst d =
         [''input'', ''fraud_probability'', ''risk_level'', ''decision'', ''timestamp'', ''_id'']
       \<and> has_verdict d) new"
        by blast
      then show ?thesis
        by (intro exI [of _ "?d # new"]) (simp add: has_verdict_def)
    qed
  qed
qed

lemma map_of_absent: "k \<notin> set (map fst d) \<Longrightarrow> map_of d k = None"
  by (simp add: map_of_eq_None_iff)

lemma loop_document_no_indicators:
  assumes "map fst d =
     [''input'', ''fraud_probability'', ''risk_level'', ''decision'', ''timestamp'', ''_id'']"
  shows "map_of d ''top_risk_indicators'' = None"
  by (rule map_of_absent) (simp add: assms)

subsection \<open>Counting documents\<close>

lemma matches_single: "matches [(k, v)] = (\<lambda>d. map_of d k = Some v)"
  by (rule ext) (simp add: matches_def)

lemma count_documents_all: "count_documents [] c = length c"
  by (simp add: count_documents_def matches_def)

lemma count_documents_Cons:
  "count_documents [(k, v)] (d # c) =
     (if map_of d k = Some v then 1 else 0) + count_documents [(k, v)] c"
  by (simp add: count_documents_def matches_single)

lemma risk_counts:
  "list_all has_verdict c \<Longrightarrow>
     count_documents [(''risk_level'', Str ''High'')] c +
     count_documents [(''risk_level'', Str ''Medium'')] c +
     count_documents [(''risk_level'', Str ''Low'')] c = length c"
proof (induction c)
  case Nil
  then show ?case by (simp add: count_documents_def)
next
  case (Cons d c)
  then have "has_verdict d" and "list_all has_verdict c" by simp_all
  with Cons.IH show ?case
    unfolding count_documents_Cons has_verdict_def by auto
qed

lemma decision_counts:
  "list_all has_verdict c \<Longrightarrow>
     count_documents [(''decision'', Str ''Approve'')] c +
     count_documents [(''decision'', Str ''Block'')] c +
     count_documents [(''decision'', Str ''Review'')] c = length c"
proof (induction c)
  case Nil
  then show ?case by (simp add: count_documents_def)
next
  case (Cons d c)
  then have "has_verdict d" and "list_all has_verdict c" by simp_all
  with Cons.IH show ?case
    unfolding count_documents_Cons has_verdict_def by auto
qed

lemma auto_generate_transactions_verdicts:
  assumes "list_all has_verdict c"
  shows "list_all has_verdict (snd (auto_generate_transactions m rws c))"
proof -
  obtain r c' where run: "auto_generate_transactions m rws c = (r, c')"
    by (cases "auto_generate_transactions m rws c")
  from auto_generate_transactions_adds [OF run] obtain new
    where new: "c' = c @ new"
      and all: "list_all (\<lambda>d. map fst d =
         [''input'', ''fraud_probability'', ''risk_level'', ''decision'', ''timestamp'', ''_id'']
       \<and> has_verdict d) new"
    by blast
  from all have "list_all has_verdict new"
    by (simp add: list_all_iff)
  with assms new run show ?thesis by simp
qed

lemma score_transaction_verdicts:
  assumes "list_all has_verdict c"
  shows "list_all has_verdict (snd (score_transaction argsort m w t c))"
proof -
  from score_transaction_store [of argsort m w t c]
  consider "snd (score_transaction argsort m w t c) = c"
    | r where "score_transaction argsort m w t c = (Inr r, snd (score_transaction argsort m w t c))"
    by blast
  then show ?thesis
  proof cases
    case 1
    with assms show ?thesis by simp
  next
    case 2
    then show ?thesis
      by (elim score_transaction_InrE) (use assms in \<open>simp add: has_verdict_def\<close>)
  qed
qed

lemma run_events_verdicts:
  "list_all has_verdict c \<Longrightarrow> list_all has_verdict (run_events argsort m evs c)"
proof (induction evs arbitrary: c)
  case Nil
  then show ?case by simp
next
  case (Cons ev evs)
  show ?case
  proof (cases ev)
    case (Request w t)
    with Cons show ?thesis by (simp add: score_transaction_verdicts)
  next
    case (Iterations rws)
    with Cons show ?thesis by (simp add: auto_generate_transactions_verdicts)
  qed
qed

subsection \<open>Sorting and the generator\<close>

lemma is_argsort_ofD:
  assumes "is_argsort_of ws idx"
  shows "length idx = length ws" and "set idx = {0..<length ws}" and "distinct idx"
    and "sorted (map (\<lambda>i. ws ! i) idx)"
proof -
  from assms have s: "sort idx = [0..<length ws]"
    and "sorted (map (\<lambda>i. ws ! i) idx)"
    by (simp_all add: is_argsort_of_def)
  then show "sorted (map (\<lambda>i. ws ! i) idx)" by simp
  have "length (sort idx) = length idx" by simp
  with s show "length idx = length ws" by simp
  have "set (sort idx) = set idx" by simp
  with s show "set idx = {0..<length ws}" by simp
  have "distinct (sort idx) = distinct idx" by simp
  with s show "distinct idx" by simp
qed

lemma top_three:
  assumes "length ws = 30" and "is_argsort_of ws idx"
  shows "length (drop 27 idx) = 3"
    and "distinct (drop 27 idx)"
    and "\<forall>i \<in> set (drop 27 idx). i < 30"
    and "sorted (map (\<lambda>i. ws ! i) (drop 27 idx))"
    and "\<forall>j<30. j \<notin> set (drop 27 idx) \<longrightarrow> (\<forall>i \<in> set (drop 27 idx). ws ! j \<le> ws ! i)"
proof -
  note d = is_argsort_ofD [OF assms(2)]
  from d(1) assms(1) show "length (drop 27 idx) = 3" by simp
  from d(3) show "distinct (drop 27 idx)" by simp
  have sub: "set (drop 27 idx) \<subseteq> set idx" by (rule set_drop_subset)
  with d(2) assms(1) show "\<forall>i \<in> set (drop 27 idx). i < 30" by auto
  have "sorted (drop 27 (map (\<lambda>i. ws ! i) idx))"
    using d(4) by (rule sorted_wrt_drop)
  then show "sorted (map (\<lambda>i. ws ! i) (drop 27 idx))" by (simp add: drop_map)
  have "sorted (map (\<lambda>i. ws ! i) (take 27 idx @ drop 27 idx))"
    using d(4) by simp
  then have le: "\<forall>j \<in> set (take 27 idx). \<forall>i \<in> set (drop 27 idx). ws ! j \<le> ws ! i"
    unfolding map_append sorted_append by simp
  show "\<forall>j<30. j \<notin> set (drop 27 idx) \<longrightarrow> (\<forall>i \<in> set (drop 27 idx). ws ! j \<le> ws ! i)"
  proof (intro allI impI)
    fix j :: nat
    assume "j < 30" and out: "j \<notin> set (drop 27 idx)"
    with d(2) assms(1) have "j \<in> set idx" by simp
    then have "j \<in> set (take 27 idx @ drop 27 idx)" by simp
    with out have "j \<in> set (take 27 idx)" by (simp only: set_append Un_iff) blast
    with le show "\<forall>i \<in> set (drop 27 idx). ws ! j \<le> ws ! i" by blast
  qed
qed

lemma uniform_bounds:
  assumes "0 \<le> u" "u < 1" "a \<le> b"
  shows "a \<le> uniform a b u" "uniform a b u \<le> b"
proof -
  from assms have "0 \<le> (b - a) * u" by simp
  then show "a \<le> uniform a b u" by (simp add: uniform_def)
  from assms have "(b - a) * u \<le> (b - a) * 1"
    by (intro mult_left_mono) simp_all
  then show "uniform a b u \<le> b" by (simp add: uniform_def)
qed

subsection \<open>A request in a working environment\<close>

lemma score_transaction_returns:
  assumes "predict_proba m (map snd (dict t)) = Inr p"
    and "length (feature_importances m) = 30"
    and "is_argsort_of (feature_importances m) (argsort (feature_importances m))"
    and "\<not> insert_fails w"
  shows "score_transaction argsort m w t c =
    (Inr [(''fraud_probability'', Float (py_round p 4)),
          (''risk_level'',
             Str (if p > 0.75 then ''High'' else if p > float_0_40 then ''Medium'' else ''Low'')),
          (''decision'',
             Str (if p > 0.75 then ''Block'' else if p > float_0_40 then ''Review'' else ''Approve'')),
          (''top_risk_indicators'',
             StrList (map (\<lambda>i. field_names ! i) (drop 27 (argsort (feature_importances m)))))],
     c @ [[(''input'', Dict (dict t)),
          (''fraud_probability'', Float (py_round p 4)),
          (''risk_level'',
             Str (if p > 0.75 then ''High'' else if p > float_0_40 then ''Medium'' else ''Low'')),
          (''decision'',
             Str (if p > 0.75 then ''Block'' else if p > float_0_40 then ''Review'' else ''Approve'')),
          (''top_risk_indicators'',
             StrList (map (\<lambda>i. field_names ! i) (drop 27 (argsort (feature_importances m))))),
          (''timestamp'', Datetime (utcnow w)),
          (''_id'', ObjectId (object_id w))]])"
proof -
  note t = top_three [OF assms(2,3)]
  from is_argsort_ofD(1) [OF assms(3)] assms(2)
  have len: "length (argsort (feature_importances m)) - 3 = 27" by simp
  from t(3) have at: "names_at field_names (drop 27 (argsort (feature_importances m))) =
      Inr (map (\<lambda>i. field_names ! i) (drop 27 (argsort (feature_importances m))))"
    by (intro names_at_Inr) (simp add: length_field_names)
  show ?thesis
    unfolding score_transaction_def dict_keys Let_def assms(1) len at
    using assms(4) by (simp add: insert_one_def)
qed

subsection \<open>Double arithmetic\<close>

text \<open>
  \<open>binade\<close> brackets its argument between two powers of 2, and \<open>nearest_double\<close>
  is within half a unit in the last place.
\<close>

lemma bitlen_pos: "0 < n \<Longrightarrow> 1 \<le> bitlen n"
  using bitlen_bounds [of n] bitlen_nonneg [of n]
  by (cases "bitlen n = 0") (auto simp: not_le)

lemma binade_bracket:
  assumes "0 < x"
  shows "2 powi binade x \<le> x" and "x < 2 powi (binade x + 1)"
proof -
  have "2 powi binade x \<le> x \<and> x < 2 powi (binade x + 1)"
  proof (cases "1 \<le> x")
    case True
    define n where "n = \<lfloor>x\<rfloor>"
    define k where "k = bitlen n"
    from True have n: "0 < n" by (simp add: n_def)
    then have k: "1 \<le> k" unfolding k_def by (rule bitlen_pos)
    from bitlen_bounds [OF n] have lo: "2 ^ nat (k - 1) \<le> n" and hi: "n < 2 ^ nat k"
      by (simp_all add: k_def)
    have b: "binade x = k - 1" using True by (simp add: binade_def n_def k_def)
    from lo have "(2::real) ^ nat (k - 1) \<le> of_int n"
      by (metis of_int_le_iff of_int_numeral of_int_power)
    also have "\<dots> \<le> x" by (simp add: n_def)
    finally have 1: "2 powi (k - 1) \<le> x" using k by (simp add: power_int_def)
    from hi have "n + 1 \<le> 2 ^ nat k" by simp
    then have "of_int (n + 1) \<le> (2::real) ^ nat k"
      by (metis of_int_le_iff of_int_numeral of_int_power)
    moreover have "x < of_int (n + 1)" by (simp add: n_def)
    ultimately have 2: "x < 2 powi k" using k by (simp add: power_int_def)
    from 1 2 b show ?thesis by simp
  next
    case False
    define j where "j = \<lceil>1 / x\<rceil> - 1"
    define k where "k = bitlen j"
    from False assms have y: "1 < 1 / x" by simp
    then have j: "0 < j" unfolding j_def by (simp add: less_ceiling_iff)
    then have k: "1 \<le> k" unfolding k_def by (rule bitlen_pos)
    from bitlen_bounds [OF j] have lo: "2 ^ nat (k - 1) \<le> j" and hi: "j < 2 ^ nat k"
      by (simp_all add: k_def)
    have b: "binade x = - k" using False by (simp add: binade_def j_def k_def)
    from hi have "j + 1 \<le> 2 ^ nat k" by simp
    then have "of_int (j + 1) \<le> (2::real) ^ nat k"
      by (metis of_int_le_iff of_int_numeral of_int_power)
    moreover have "1 / x \<le> of_int (j + 1)" by (simp add: j_def)
    ultimately have "1 / x \<le> 2 ^ nat k" by simp
    with assms have "1 / 2 ^ nat k \<le> x"
      by (simp add: field_simps)
    then have 1: "2 powi (- k) \<le> x" using k by (simp add: power_int_def field_simps)
    from lo have "(2::real) ^ nat (k - 1) \<le> of_int j"
      by (metis of_int_le_iff of_int_numeral of_int_power)
    also have "of_int j < 1 / x" unfolding j_def by linarith
    finally have "x < 1 / 2 ^ nat (k - 1)" using assms by (simp add: field_simps)
    then have 2: "x < 2 powi (- k + 1)"
      using k by (cases "k = 1") (simp_all add: power_int_def field_simps nat_diff_distrib)
    from 1 2 b show ?thesis by simp
  qed
  then show "2 powi binade x \<le> x" and "x < 2 powi (binade x + 1)" by simp_all
qed

lemma round_half_even_close: "\<bar>of_int (round_half_even x) - x\<bar> \<le> 1 / 2"
  unfolding round_half_even_def Let_def by (auto simp: abs_le_iff)

lemma nearest_double_error:
  assumes "x \<noteq> 0"
  shows "\<bar>nearest_double x - x\<bar> \<le> 2 powi (max (binade \<bar>x\<bar> - 52) (- 1074)) / 2"
proof -
  let ?u = "(2::real) powi (max (binade \<bar>x\<bar> - 52) (- 1074))"
  have u: "0 < ?u" by simp
  have "nearest_double x - x = (of_int (round_half_even (x / ?u)) - x / ?u) * ?u"
    using assms u by (simp add: nearest_double_def Let_def field_simps)
  then have "\<bar>nearest_double x - x\<bar> = \<bar>of_int (round_half_even (x / ?u)) - x / ?u\<bar> * ?u"
    using u by (simp add: abs_mult)
  also have "\<dots> \<le> 1 / 2 * ?u"
    using round_half_even_close [of "x / ?u"] u by (intro mult_right_mono) simp_all
  finally show ?thesis by simp
qed

subsection \<open>The examples, evaluated\<close>

lemma stable_argsort_example:
  "stable_argsort example_importances =
     [0, 1, 2, 3, 4, 5, 6, 7, 8, 9, 10, 11, 13, 15, 16, 18, 19, 20, 21, 22, 23, 24, 25, 26,
      27, 28, 29, 12, 17, 14]"
  by (simp add: stable_argsort_def example_importances_def upt_rec)

lemma argsort_example_valid:
  "is_argsort_of example_importances (stable_argsort example_importances)"
  unfolding stable_argsort_example is_argsort_of_def
  by (simp add:  example_importances_def upt_rec)

lemma py_round_three_quarters: "py_round (3 / 4) 4 = 3 / 4"
  by (simp add: py_round_def round_half_even_def)

lemma py_round_nine_tenths: "py_round (9 / 10) 4 = 9 / 10"
  by (simp add: py_round_def round_half_even_def)

lemma py_round_seven_eighths: "py_round (7 / 8) 4 = 7 / 8"
  by (simp add: py_round_def round_half_even_def)

lemma stub_classifier_fields:
  "predict_proba (stub_classifier p) features = Inr p"
  "feature_importances (stub_classifier p) = example_importances"
  "length (feature_importances (stub_classifier p)) = 30"
  "is_argsort_of (feature_importances (stub_classifier p))
     (stable_argsort (feature_importances (stub_classifier p)))"
  by (simp_all add: stub_classifier_def argsort_example_valid)
    (simp add: example_importances_def)

lemma nearest_double_23_of_160:
  "nearest_double (23 / 160) = 5179139571476070 / 2 ^ 55"
  "nearest_double (5179139571476070 / 2 ^ 55 * 100) = 8092405580431359 / 2 ^ 49"
  by code_simp+

lemma approval_rate_23_of_160:
  "py_round (nearest_double (nearest_double (23 / 160) * 100)) 2 = 1437 / 100"
  by code_simp

lemma exact_rate_23_of_160: "py_round (23 / 160 * 100) 2 = 1438 / 100"
  by code_simp

lemma approval_rate_1_of_32:
  "py_round (nearest_double (nearest_double (1 / 32) * 100)) 2 = 312 / 100"
  by code_simp

lemma approval_rate_2_of_3:
  "py_round (nearest_double (nearest_double (2 / 3) * 100)) 2 = 6667 / 100"
  by code_simp

lemma example_env_fields:
  "utcnow example_env = 1700000000" "insert_fails example_env = False"
  "object_id example_env = 7"
  by (simp_all add: example_env_def)

lemma names_at_example:
  "names_at field_names [12, 17, 14] = Inr [''V12'', ''V17'', ''V14'']"
  by (simp add: field_names_def getitem_def)

lemma score_any_example:
  "score_transaction stable_argsort (stub_classifier (3 / 4)) example_env t c =
     (Inr [(''fraud_probability'', Float (3 / 4)), (''risk_level'', Str ''Medium''),
           (''decision'', Str ''Review''),
           (''top_risk_indicators'', StrList [''V12'', ''V17'', ''V14''])],
      c @ [[(''input'', Dict (dict t)), (''fraud_probability'', Float (3 / 4)),
        (''risk_level'', Str ''Medium''), (''decision'', Str ''Review''),
        (''top_risk_indicators'', StrList [''V12'', ''V17'', ''V14'']),
        (''timestamp'', Datetime 1700000000), (''_id'', ObjectId 7)]])"
  unfolding score_transaction_def dict_keys
  by (simp add: stub_classifier_def stable_argsort_example names_at_example
      py_round_three_quarters float_0_40_def insert_one_def example_env_def
      del: names_at.simps)

lemma score_example:
  "score_transaction stable_argsort (stub_classifier (3 / 4)) example_env
     example_transaction [] =
     (Inr [(''fraud_probability'', Float (3 / 4)), (''risk_level'', Str ''Medium''),
           (''decision'', Str ''Review''),
           (''top_risk_indicators'', StrList [''V12'', ''V17'', ''V14''])],
      [[(''input'', Dict (dict example_transaction)), (''fraud_probability'', Float (3 / 4)),
        (''risk_level'', Str ''Medium''), (''decision'', Str ''Review''),
        (''top_risk_indicators'', StrList [''V12'', ''V17'', ''V14'']),
        (''timestamp'', Datetime 1700000000), (''_id'', ObjectId 7)]])"
  using score_any_example [of example_transaction "[]"] by simp

lemma generate_midpoint: "generate_random_transaction (\<lambda>i. 1 / 2) = dict midpoint_transaction"
  by (simp add: generate_random_transaction_def uniform_def dict_def midpoint_transaction_def
      example_transaction_def)

lemma picky_accepts:
  "predict_proba picky_classifier (map snd (generate_random_transaction (\<lambda>i. 1 / 10))) =
     Inr (9 / 10)"
  by (simp add: picky_classifier_def generate_random_transaction_def uniform_def)

lemma picky_rejects:
  "predict_proba picky_classifier (map snd (generate_random_transaction (\<lambda>i. 9 / 10))) =
     Inl ScoringError"
  by (simp add: picky_classifier_def generate_random_transaction_def uniform_def)

lemma picky_rejects_late:
  "predict_proba picky_classifier (map snd (dict late_transaction)) = Inl ScoringError"
  by (simp add: picky_classifier_def dict_def late_transaction_def example_transaction_def)

lemma loop_example:
  "auto_generate_transactions picky_classifier [(\<lambda>i. 1 / 10, example_env)] c =
     (None, c @ [[(''input'', Dict (generate_random_transaction (\<lambda>i. 1 / 10))),
            (''fraud_probability'', Float (9 / 10)), (''risk_level'', Str ''High''),
            (''decision'', Str ''Block''), (''timestamp'', Datetime 1700000000),
            (''_id'', ObjectId 7)]])"
  unfolding auto_generate_transactions_step picky_accepts
  by (simp add: py_round_nine_tenths example_env_def)


lemma loop_failure_example:
  "auto_generate_transactions picky_classifier [(\<lambda>i. 9 / 10, example_env)] c =
     (Some ScoringError, c)"
  unfolding auto_generate_transactions_step picky_rejects by simp



subsection \<open>The three risk buckets\<close>

text \<open>
  Claim C1. Let the classifier return the probability \<open>p\<close> on the features of the
  request, in a working environment: the classifier has 30 importance weights,
  \<open>argsort\<close> meets its contract on them and the insertion does not raise. Then the
  request returns a response, and the response has risk level Low and decision Approve
  for \<open>p \<le> 0.40\<close>, Medium and Review for \<open>0.40 < p \<le> 0.75\<close>, High and Block for
  \<open>p > 0.75\<close>, where \<open>0.40\<close> is the float of the source. The two boundary values
  fall into the lower bucket: \<open>p = 0.40\<close> gives Low and Approve, \<open>p = 0.75\<close> gives
  Medium and Review.
\<close>

theorem score_transaction_buckets:
  assumes "predict_proba m (map snd (dict transaction)) = Inr p"
    and "length (feature_importances m) = 30"
    and "is_argsort_of (feature_importances m) (argsort (feature_importances m))"
    and "\<not> insert_fails w"
  shows "\<exists>response collection'.
           score_transaction argsort m w transaction collection = (Inr response, collection')
         \<and> (p \<le> float_0_40 \<longrightarrow>
              map_of response ''risk_level'' = Some (Str ''Low'') \<and>
              map_of response ''decision'' = Some (Str ''Approve''))
         \<and> (float_0_40 < p \<and> p \<le> 0.75 \<longrightarrow>
              map_of response ''risk_level'' = Some (Str ''Medium'') \<and>
              map_of response ''decision'' = Some (Str ''Review''))
         \<and> (0.75 < p \<longrightarrow>
              map_of response ''risk_level'' = Some (Str ''High'') \<and>
              map_of response ''decision'' = Some (Str ''Block''))
         \<and> (p = float_0_40 \<longrightarrow>
              map_of response ''risk_level'' = Some (Str ''Low'') \<and>
              map_of response ''decision'' = Some (Str ''Approve''))
         \<and> (p = 0.75 \<longrightarrow>
              map_of response ''risk_level'' = Some (Str ''Medium'') \<and>
              map_of response ''decision'' = Some (Str ''Review''))"
  unfolding score_transaction_returns [where argsort = argsort, OF assms]
  using float_0_40_bounds(2) by auto

theorem score_transaction_buckets_witness:
  "(\<exists>response collection'.
      score_transaction stable_argsort (stub_classifier (7 / 8)) example_env
        example_transaction [] = (Inr response, collection')
      \<and> map_of response ''risk_level'' = Some (Str ''High'')
      \<and> map_of response ''decision'' = Some (Str ''Block''))
   \<and> (\<exists>response collection'.
      score_transaction stable_argsort (stub_classifier (3 / 4)) example_env
        example_transaction [] = (Inr response, collection')
      \<and> map_of response ''risk_level'' = Some (Str ''Medium'')
      \<and> map_of response ''decision'' = Some (Str ''Review''))
   \<and> (\<exists>response collection'.
      score_transaction stable_argsort (stub_classifier float_0_40) example_env
        example_transaction [] = (Inr response, collection')
      \<and> map_of response ''risk_level'' = Some (Str ''Low'')
      \<and> map_of response ''decision'' = Some (Str ''Approve''))
   \<and> (\<exists>response collection'.
      score_transaction stable_argsort (stub_classifier (1 / 8)) example_env
        late_transaction [] = (Inr response, collection')
      \<and> map_of response ''risk_level'' = Some (Str ''Low'')
      \<and> map_of response ''decision'' = Some (Str ''Approve''))"
proof -
  have w: "\<not> insert_fails example_env" by (simp add: example_env_fields)
  have b: "(0.75::real) < 7 / 8" "float_0_40 < 3 / 4" "(3::real) / 4 \<le> 0.75"
    "(1::real) / 8 \<le> float_0_40"
    by (simp_all add: float_0_40_def)
  from score_transaction_buckets [where argsort = stable_argsort and m = "stub_classifier (7 / 8)"
        and p = "7 / 8" and transaction = example_transaction and w = example_env and collection = "[]",
      OF stub_classifier_fields(1,3,4) w] b(1)
  have high: "\<exists>response collection'.
      score_transaction stable_argsort (stub_classifier (7 / 8)) example_env
        example_transaction [] = (Inr response, collection')
      \<and> map_of response ''risk_level'' = Some (Str ''High'')
      \<and> map_of response ''decision'' = Some (Str ''Block'')"
    by blast
  from score_transaction_buckets [where argsort = stable_argsort and m = "stub_classifier (3 / 4)"
        and p = "3 / 4" and transaction = example_transaction and w = example_env and collection = "[]",
      OF stub_classifier_fields(1,3,4) w] b(2,3)
  have medium: "\<exists>response collection'.
      score_transaction stable_argsort (stub_classifier (3 / 4)) example_env
        example_transaction [] = (Inr response, collection')
      \<and> map_of response ''risk_level'' = Some (Str ''Medium'')
      \<and> map_of response ''decision'' = Some (Str ''Review'')"
    by blast
  from score_transaction_buckets [where argsort = stable_argsort and m = "stub_classifier (float_0_40)"
        and p = "float_0_40" and transaction = example_transaction and w = example_env and collection = "[]",
      OF stub_classifier_fields(1,3,4) w]
  have boundary: "\<exists>response collection'.
      score_transaction stable_argsort (stub_classifier float_0_40) example_env
        example_transaction [] = (Inr response, collection')
      \<and> map_of response ''risk_level'' = Some (Str ''Low'')
      \<and> map_of response ''decision'' = Some (Str ''Approve'')"
    by blast
  from score_transaction_buckets [where argsort = stable_argsort and m = "stub_classifier (1 / 8)"
        and p = "1 / 8" and transaction = late_transaction and w = example_env and collection = "[]",
      OF stub_classifier_fields(1,3,4) w] b(4)
  have low: "\<exists>response collection'.
      score_transaction stable_argsort (stub_classifier (1 / 8)) example_env
        late_transaction [] = (Inr response, collection')
      \<and> map_of response ''risk_level'' = Some (Str ''Low'')
      \<and> map_of response ''decision'' = Some (Str ''Approve'')"
    by blast
  from high medium boundary low show ?thesis by (intro conjI)
qed

subsection \<open>The top risk indicators\<close>

text \<open>
  Claim C2. Let the classifier have 30 importance weights and let \<open>argsort\<close> meet
  its contract on them. Then the \<open>top_risk_indicators\<close> of every response are the
  names of the fields at the last three indices of the argsort: three different names
  of the 30 fields, in ascending order of weight, and no other field weighs more than
  any of the three. The list depends on the weights alone: two requests, with whatever
  transactions, clocks and collections, return the same list.
\<close>

theorem top_risk_indicators_are_top_three:
  assumes "length (feature_importances m) = 30"
    and "is_argsort_of (feature_importances m) (argsort (feature_importances m))"
    and "score_transaction argsort m w transaction collection = (Inr response, collection')"
    and "score_transaction argsort m w2 transaction2 collection2 = (Inr response2, collection2')"
  shows "(let ws = feature_importances m;
              top = drop 27 (argsort ws);
              names = map (\<lambda>i. field_names ! i) top
          in map_of response ''top_risk_indicators'' = Some (StrList names)
           \<and> length names = 3
           \<and> distinct names
           \<and> set names \<subseteq> set field_names
           \<and> (\<forall>i \<in> set top. i < 30)
           \<and> sorted (map (\<lambda>i. ws ! i) top)
           \<and> (\<forall>j<30. j \<notin> set top \<longrightarrow> (\<forall>i \<in> set top. ws ! j \<le> ws ! i))
           \<and> map_of response2 ''top_risk_indicators'' = map_of response ''top_risk_indicators'')"
proof -
  let ?ws = "feature_importances m"
  let ?top = "drop 27 (argsort ?ws)"
  let ?names = "map (\<lambda>i. field_names ! i) ?top"
  note t = top_three [OF assms(1,2)]
  from is_argsort_ofD(1) [OF assms(2)] assms(1)
  have len: "length (argsort ?ws) - 3 = 27" by simp
  from t(3) have at: "names_at field_names ?top = Inr ?names"
    by (intro names_at_Inr) (simp add: length_field_names)
  have r: "map_of r ''top_risk_indicators'' = Some (StrList ?names)"
    if "score_transaction argsort m v t c = (Inr r, c')" for v t c r c'
    using that
    by (elim score_transaction_InrE) (simp add: len dict_keys at)
  have "distinct ?names"
    unfolding distinct_map
  proof
    show "distinct ?top" by (rule t(2))
    show "inj_on (\<lambda>i. field_names ! i) (set ?top)"
      using t(3) distinct_field_names
      by (auto simp: inj_on_def nth_eq_iff_index_eq length_field_names)
  qed
  moreover have "set ?names \<subseteq> set field_names"
    using t(3) by (auto simp: length_field_names)
  moreover have "length ?names = 3" using t(1) by simp
  ultimately show ?thesis
    using r [OF assms(3)] r [OF assms(4)] t(3,4,5)
    unfolding Let_def by simp
qed

theorem top_risk_indicators_are_top_three_witness:
  "length (feature_importances (stub_classifier (3 / 4))) = 30
   \<and> is_argsort_of (feature_importances (stub_classifier (3 / 4)))
        (stable_argsort (feature_importances (stub_classifier (3 / 4))))
   \<and> map_of [(''fraud_probability'', Float (3 / 4)), (''risk_level'', Str ''Medium''),
            (''decision'', Str ''Review''),
            (''top_risk_indicators'', StrList [''V12'', ''V17'', ''V14''])]
        ''top_risk_indicators'' =
       Some (StrList (map (\<lambda>i. field_names ! i)
         (drop 27 (stable_argsort (feature_importances (stub_classifier (3 / 4)))))))
   \<and> map (\<lambda>i. field_names ! i)
         (drop 27 (stable_argsort (feature_importances (stub_classifier (3 / 4))))) =
       [''V12'', ''V17'', ''V14'']"
proof -
  have h1: "length (feature_importances (stub_classifier (3 / 4))) = 30"
    by (simp add: stub_classifier_def example_importances_def)
  have h2: "is_argsort_of (feature_importances (stub_classifier (3 / 4)))
        (stable_argsort (feature_importances (stub_classifier (3 / 4))))"
    by (simp add: stub_classifier_def argsort_example_valid)
  have names: "map (\<lambda>i. field_names ! i)
         (drop 27 (stable_argsort (feature_importances (stub_classifier (3 / 4))))) =
       [''V12'', ''V17'', ''V14'']"
    by (simp add: stub_classifier_def stable_argsort_example field_names_def)
  from top_risk_indicators_are_top_three [OF h1 h2
      score_any_example [of example_transaction "[]"]
      score_any_example [of late_transaction "[]"]]
  have "map_of [(''fraud_probability'', Float (3 / 4)), (''risk_level'', Str ''Medium''),
            (''decision'', Str ''Review''),
            (''top_risk_indicators'', StrList [''V12'', ''V17'', ''V14''])]
        ''top_risk_indicators'' =
       Some (StrList (map (\<lambda>i. field_names ! i)
         (drop 27 (stable_argsort (feature_importances (stub_classifier (3 / 4)))))))"
    unfolding Let_def by (elim conjE)
  with h1 h2 names show ?thesis by (intro conjI)
qed

subsection \<open>The counts of the dashboard\<close>

text \<open>
  Claim C3. After any sequence of scoring requests and loop iterations that starts on
  the empty collection, the dashboard has
  \<open>high + medium + low = total_transactions = approved + blocked + review\<close>.
\<close>

theorem dashboard_counts_agree:
  "high (risk_distribution (dashboard_summary (run_events argsort m evs []))) +
   medium (risk_distribution (dashboard_summary (run_events argsort m evs []))) +
   low (risk_distribution (dashboard_summary (run_events argsort m evs []))) =
     total_transactions (dashboard_summary (run_events argsort m evs []))
   \<and> total_transactions (dashboard_summary (run_events argsort m evs [])) =
     approved (decision_distribution (dashboard_summary (run_events argsort m evs []))) +
     blocked (decision_distribution (dashboard_summary (run_events argsort m evs []))) +
     review (decision_distribution (dashboard_summary (run_events argsort m evs [])))"
proof -
  have inv: "list_all has_verdict (run_events argsort m evs [])"
    by (rule run_events_verdicts) simp
  show ?thesis
    using risk_counts [OF inv] decision_counts [OF inv]
    by (simp add: dashboard_summary_def Let_def count_documents_all)
qed

theorem dashboard_counts_agree_witness:
  "run_events stable_argsort picky_classifier
      [Iterations [(\<lambda>i. 1 / 10, example_env)], Iterations [(\<lambda>i. 9 / 10, example_env)]] [] =
     [[(''input'', Dict (generate_random_transaction (\<lambda>i. 1 / 10))),
       (''fraud_probability'', Float (9 / 10)), (''risk_level'', Str ''High''),
       (''decision'', Str ''Block''), (''timestamp'', Datetime 1700000000),
       (''_id'', ObjectId 7)]]
   \<and> total_transactions (dashboard_summary (run_events stable_argsort picky_classifier
      [Iterations [(\<lambda>i. 1 / 10, example_env)], Iterations [(\<lambda>i. 9 / 10, example_env)]] [])) = 1
   \<and> approved (decision_distribution (dashboard_summary (run_events stable_argsort
        picky_classifier
        [Iterations [(\<lambda>i. 1 / 10, example_env)], Iterations [(\<lambda>i. 9 / 10, example_env)]] []))) +
     blocked (decision_distribution (dashboard_summary (run_events stable_argsort
        picky_classifier
        [Iterations [(\<lambda>i. 1 / 10, example_env)], Iterations [(\<lambda>i. 9 / 10, example_env)]] []))) +
     review (decision_distribution (dashboard_summary (run_events stable_argsort
        picky_classifier
        [Iterations [(\<lambda>i. 1 / 10, example_env)], Iterations [(\<lambda>i. 9 / 10, example_env)]] []))) = 1"
proof -
  have run: "run_events stable_argsort picky_classifier
      [Iterations [(\<lambda>i. 1 / 10, example_env)], Iterations [(\<lambda>i. 9 / 10, example_env)]] [] =
     [[(''input'', Dict (generate_random_transaction (\<lambda>i. 1 / 10))),
       (''fraud_probability'', Float (9 / 10)), (''risk_level'', Str ''High''),
       (''decision'', Str ''Block''), (''timestamp'', Datetime 1700000000),
       (''_id'', ObjectId 7)]]"
    by (simp add: loop_example loop_failure_example del: auto_generate_transactions.simps)
  have total: "total_transactions (dashboard_summary (run_events stable_argsort picky_classifier
      [Iterations [(\<lambda>i. 1 / 10, example_env)], Iterations [(\<lambda>i. 9 / 10, example_env)]] [])) = 1"
    unfolding run by (simp add: dashboard_summary_def Let_def count_documents_all)
  from dashboard_counts_agree [of stable_argsort picky_classifier
      "[Iterations [(\<lambda>i. 1 / 10, example_env)], Iterations [(\<lambda>i. 9 / 10, example_env)]]"]
    run total
  show ?thesis by simp
qed

subsection \<open>A failure in the background loop\<close>




subsection \<open>A failure of the classifier in a request\<close>

text \<open>
  Claim C5. When the classifier raises on the features of the request, the request
  ends with that exception and the collection is unchanged: no document is stored.
\<close>

theorem score_transaction_classifier_failure:
  assumes "predict_proba m (map snd (dict transaction)) = Inl e"
  shows "score_transaction argsort m w transaction collection = (Inl e, collection)"
  using assms by (simp add: score_transaction_def)

theorem score_transaction_classifier_failure_witness:
  "predict_proba picky_classifier (map snd (dict late_transaction)) = Inl ScoringError
   \<and> score_transaction stable_argsort picky_classifier example_env late_transaction [] =
        (Inl ScoringError, [])"
  using score_transaction_classifier_failure [OF picky_rejects_late,
      of stable_argsort example_env "[]"] picky_rejects_late
  by simp

subsection \<open>Round trip\<close>

text \<open>
  Claim C6. In a working environment (the classifier returns a probability and has 30
  importance weights, \<open>argsort\<close> meets its contract, the insertion does not raise),
  a request returns a response, and afterwards \<open>/transactions\<close> lists what it
  listed before and exactly one new document at the end: its \<open>input\<close> is the
  submitted transaction, and its fraud probability, risk level, decision and top risk
  indicators are those of the response.
\<close>

theorem score_transaction_round_trip:
  assumes "predict_proba m (map snd (dict transaction)) = Inr p"
    and "length (feature_importances m) = 30"
    and "is_argsort_of (feature_importances m) (argsort (feature_importances m))"
    and "\<not> insert_fails w"
  shows "\<exists>response collection'.
           score_transaction argsort m w transaction collection = (Inr response, collection')
         \<and> get_transactions collection' =
             get_transactions collection @
               [(''input'', Dict (dict transaction)) # response @
                  [(''timestamp'', Datetime (utcnow w))]]
         \<and> map fst response =
             [''fraud_probability'', ''risk_level'', ''decision'', ''top_risk_indicators'']
         \<and> length (get_transactions collection') = length (get_transactions collection) + 1
         \<and> map_of (last (get_transactions collection')) ''input'' =
             Some (Dict (dict transaction))
         \<and> map_of (last (get_transactions collection')) ''fraud_probability'' =
             map_of response ''fraud_probability''
         \<and> map_of (last (get_transactions collection')) ''risk_level'' =
             map_of response ''risk_level''
         \<and> map_of (last (get_transactions collection')) ''decision'' =
             map_of response ''decision''
         \<and> map_of (last (get_transactions collection')) ''top_risk_indicators'' =
             map_of response ''top_risk_indicators''"
  unfolding score_transaction_returns [where argsort = argsort, OF assms]
  by (simp add: get_transactions_def)

theorem score_transaction_round_trip_witness:
  "\<exists>response collection'.
     score_transaction stable_argsort (stub_classifier (7 / 8)) example_env late_transaction
       [[(''input'', Dict (dict example_transaction)), (''fraud_probability'', Float (3 / 4)),
         (''risk_level'', Str ''Medium''), (''decision'', Str ''Review''),
         (''top_risk_indicators'', StrList [''V12'', ''V17'', ''V14'']),
         (''timestamp'', Datetime 1700000000), (''_id'', ObjectId 7)]] =
       (Inr response, collection')
     \<and> get_transactions collection' =
         [[(''input'', Dict (dict example_transaction)), (''fraud_probability'', Float (3 / 4)),
           (''risk_level'', Str ''Medium''), (''decision'', Str ''Review''),
           (''top_risk_indicators'', StrList [''V12'', ''V17'', ''V14'']),
           (''timestamp'', Datetime 1700000000)],
          (''input'', Dict (dict late_transaction)) # response @
            [(''timestamp'', Datetime 1700000000)]]
     \<and> map fst response =
         [''fraud_probability'', ''risk_level'', ''decision'', ''top_risk_indicators'']"
proof -
  have w: "\<not> insert_fails example_env" by (simp add: example_env_fields)
  from score_transaction_round_trip [where argsort = stable_argsort
      and m = "stub_classifier (7 / 8)" and p = "7 / 8" and transaction = late_transaction
      and w = example_env
      and collection = "[[(''input'', Dict (dict example_transaction)),
         (''fraud_probability'', Float (3 / 4)),
         (''risk_level'', Str ''Medium''), (''decision'', Str ''Review''),
         (''top_risk_indicators'', StrList [''V12'', ''V17'', ''V14'']),
         (''timestamp'', Datetime 1700000000), (''_id'', ObjectId 7)]]",
      OF stub_classifier_fields(1,3,4) w]
  obtain response collection' where
    "score_transaction stable_argsort (stub_classifier (7 / 8)) example_env late_transaction
       [[(''input'', Dict (dict example_transaction)), (''fraud_probability'', Float (3 / 4)),
         (''risk_level'', Str ''Medium''), (''decision'', Str ''Review''),
         (''top_risk_indicators'', StrList [''V12'', ''V17'', ''V14'']),
         (''timestamp'', Datetime 1700000000), (''_id'', ObjectId 7)]] =
       (Inr response, collection')"
    and "get_transactions collection' =
       get_transactions
         [[(''input'', Dict (dict example_transaction)), (''fraud_probability'', Float (3 / 4)),
           (''risk_level'', Str ''Medium''), (''decision'', Str ''Review''),
           (''top_risk_indicators'', StrList [''V12'', ''V17'', ''V14'']),
           (''timestamp'', Datetime 1700000000), (''_id'', ObjectId 7)]] @
         [(''input'', Dict (dict late_transaction)) # response @
            [(''timestamp'', Datetime (utcnow example_env))]]"
    and "map fst response =
         [''fraud_probability'', ''risk_level'', ''decision'', ''top_risk_indicators'']"
    by (elim exE conjE) (rule that; assumption)
  then show ?thesis
    by (intro exI [of _ response] exI [of _ collection'])
      (simp add: get_transactions_def example_env_fields)
qed

subsection \<open>The approval rate\<close>

text \<open>
  Claim C7. The approval rate of the dashboard is 0 when the total is 0, and otherwise
  \<^verbatim>\<open>round((approved / total) * 100, 2)\<close> as Python computes it: the quotient is a
  double, its product with 100 is a double, and that double is rounded to 2 decimals,
  ties to even. The total is the number of documents and \<open>approved\<close> the number of
  those with decision Approve. With 23 approved of 160 the double product lies below
  14.375 and the rate is 14.37 (the exact quotient would round to 14.38); with 1 of 32
  the product is the tie 3.125 and the rate is 3.12.
\<close>

theorem approval_rate_formula:
  "approval_rate_percent (dashboard_summary collection) =
     (if total_transactions (dashboard_summary collection) = 0 then 0
      else py_round
        (nearest_double
          (nearest_double
             (real (approved (decision_distribution (dashboard_summary collection))) /
              real (total_transactions (dashboard_summary collection))) * 100)) 2)
   \<and> total_transactions (dashboard_summary collection) = length collection
   \<and> approved (decision_distribution (dashboard_summary collection)) =
       length (filter (\<lambda>d. map_of d ''decision'' = Some (Str ''Approve'')) collection)"
  by (simp add: dashboard_summary_def Let_def count_documents_all)
    (simp add: count_documents_def matches_single)

theorem approval_rate_formula_witness:
  "approval_rate_percent (dashboard_summary []) = 0
   \<and> approval_rate_percent (dashboard_summary
        (replicate 23 [(''decision'', Str ''Approve'')] @
         replicate 137 [(''decision'', Str ''Block'')])) = 1437 / 100
   \<and> approval_rate_percent (dashboard_summary
        ([(''decision'', Str ''Approve'')] # replicate 31 [(''decision'', Str ''Review'')])) =
       312 / 100
   \<and> approval_rate_percent (dashboard_summary
        [[(''decision'', Str ''Approve'')], [(''decision'', Str ''Block'')],
         [(''decision'', Str ''Approve'')]]) = 6667 / 100"
proof -
  let ?a = "replicate 23 [(''decision'', Str ''Approve'')] @
         replicate 137 [(''decision'', Str ''Block'')]"
  let ?b = "[(''decision'', Str ''Approve'')] # replicate 31 [(''decision'', Str ''Review'')]"
  let ?c = "[[(''decision'', Str ''Approve'')], [(''decision'', Str ''Block'')],
         [(''decision'', Str ''Approve'')]]"
  have a: "length ?a = 160"
    "length (filter (\<lambda>d. map_of d ''decision'' = Some (Str ''Approve'')) ?a) = 23"
    by simp_all
  have b: "length ?b = 32"
    "length (filter (\<lambda>d. map_of d ''decision'' = Some (Str ''Approve'')) ?b) = 1"
    by simp_all
  have c: "length ?c = 3"
    "length (filter (\<lambda>d. map_of d ''decision'' = Some (Str ''Approve'')) ?c) = 2"
    by simp_all
  from approval_rate_formula [of "[]"]
  have 0: "approval_rate_percent (dashboard_summary []) = 0" by simp
  from approval_rate_formula [of ?a]
  have 1: "approval_rate_percent (dashboard_summary ?a) = 1437 / 100"
    unfolding a by (simp only: approval_rate_23_of_160 of_nat_numeral) simp
  from approval_rate_formula [of ?b]
  have 2: "approval_rate_percent (dashboard_summary ?b) = 312 / 100"
    unfolding b by (simp only: approval_rate_1_of_32 of_nat_numeral of_nat_1) simp
  from approval_rate_formula [of ?c]
  have 3: "approval_rate_percent (dashboard_summary ?c) = 6667 / 100"
    unfolding c by (simp only: approval_rate_2_of_3 of_nat_numeral) simp
  from 0 1 2 3 show ?thesis by (intro conjI)
qed

subsection \<open>The ranges of the generator\<close>

text \<open>
  Claim C8. When the 30 random numbers are in \<open>[0, 1)\<close>, as \<^verbatim>\<open>random()\<close>
  returns them, the generated transaction has the 30 field names in order, \<open>Time\<close>
  in \<open>[0, 100000]\<close>, \<open>Amount\<close> in \<open>[1, 10000]\<close> and every other field in
  \<open>[-5, 5]\<close>.
\<close>

theorem generator_ranges:
  assumes "\<forall>i<30. 0 \<le> rnd i \<and> rnd i < 1"
  shows "map fst (generate_random_transaction rnd) = field_names
       \<and> (\<forall>kv \<in> set (generate_random_transaction rnd).
             (fst kv = ''Time'' \<longrightarrow> 0 \<le> snd kv \<and> snd kv \<le> 100000) \<and>
             (fst kv = ''Amount'' \<longrightarrow> 1 \<le> snd kv \<and> snd kv \<le> 10000) \<and>
             (fst kv \<noteq> ''Time'' \<and> fst kv \<noteq> ''Amount'' \<longrightarrow>
                - 5 \<le> snd kv \<and> snd kv \<le> 5))"
proof -
  have lo: "0 \<le> rnd i" and hi: "rnd i < 1" if "i < 30" for i
    using assms that by simp_all
  have t: "0 \<le> uniform 0 100000 (rnd i) \<and> uniform 0 100000 (rnd i) \<le> 100000" if "i < 30" for i
    using uniform_bounds [OF lo [OF that] hi [OF that], of 0 100000] by simp
  have v: "- 5 \<le> uniform (- 5) 5 (rnd i) \<and> uniform (- 5) 5 (rnd i) \<le> 5" if "i < 30" for i
    using uniform_bounds [OF lo [OF that] hi [OF that], of "- 5" 5] by simp
  have a: "1 \<le> uniform 1 10000 (rnd i) \<and> uniform 1 10000 (rnd i) \<le> 10000" if "i < 30" for i
    using uniform_bounds [OF lo [OF that] hi [OF that], of 1 10000] by simp
  have names: "map fst (generate_random_transaction rnd) = field_names"
    by (simp add: generate_random_transaction_def field_names_def)
  have ranges: "\<forall>kv \<in> set (generate_random_transaction rnd).
             (fst kv = ''Time'' \<longrightarrow> 0 \<le> snd kv \<and> snd kv \<le> 100000) \<and>
             (fst kv = ''Amount'' \<longrightarrow> 1 \<le> snd kv \<and> snd kv \<le> 10000) \<and>
             (fst kv \<noteq> ''Time'' \<and> fst kv \<noteq> ''Amount'' \<longrightarrow>
                - 5 \<le> snd kv \<and> snd kv \<le> 5)"
    unfolding generate_random_transaction_def
    by (simp add: t v a)
  from names ranges show ?thesis by simp
qed

theorem generator_ranges_witness:
  "map fst (generate_random_transaction (\<lambda>i. 1 / 2)) = field_names
   \<and> map_of (generate_random_transaction (\<lambda>i. 1 / 2)) ''Time'' = Some 50000
   \<and> map_of (generate_random_transaction (\<lambda>i. 1 / 2)) ''V1'' = Some 0
   \<and> map_of (generate_random_transaction (\<lambda>i. 1 / 2)) ''Amount'' = Some (10001 / 2)"
proof -
  have h: "\<forall>i<30. 0 \<le> (\<lambda>i. 1 / 2 :: real) i \<and> (\<lambda>i. 1 / 2 :: real) i < 1" by simp
  from generator_ranges [OF h]
  have "map fst (generate_random_transaction (\<lambda>i. 1 / 2)) = field_names" by (elim conjE)
  then show ?thesis
    by (simp add: generate_random_transaction_def uniform_def)
qed

subsection \<open>The two schemas\<close>

text \<open>
  Claim C9. Every document that the background loop adds to the collection has no key
  \<open>top_risk_indicators\<close>; the one document that a successful scoring request adds
  has it, with the list of the response.
\<close>

theorem persisted_schemas_differ:
  "(auto_generate_transactions m rws collection = (r, collection') \<longrightarrow>
      take (length collection) collection' = collection \<and>
      list_all (\<lambda>d. map_of d ''top_risk_indicators'' = None)
        (drop (length collection) collection'))
   \<and> (score_transaction argsort m2 w transaction collection2 = (Inr response, collection2') \<longrightarrow>
      take (length collection2) collection2' = collection2 \<and>
      length collection2' = length collection2 + 1 \<and>
      map_of (last collection2') ''top_risk_indicators'' \<noteq> None \<and>
      map_of (last collection2') ''top_risk_indicators'' =
        map_of response ''top_risk_indicators'')"
proof (intro conjI impI)
  assume "auto_generate_transactions m rws collection = (r, collection')"
  from auto_generate_transactions_adds [OF this] obtain new
    where new: "collection' = collection @ new"
      and all: "list_all (\<lambda>d. map fst d =
         [''input'', ''fraud_probability'', ''risk_level'', ''decision'', ''timestamp'', ''_id'']
       \<and> has_verdict d) new"
    by blast
  from new show "take (length collection) collection' = collection" by simp
  have "list_all (\<lambda>d. map_of d ''top_risk_indicators'' = None) new"
    using all by (simp add: list_all_iff loop_document_no_indicators)
  with new show "list_all (\<lambda>d. map_of d ''top_risk_indicators'' = None)
        (drop (length collection) collection')" by simp
next
  assume a: "score_transaction argsort m2 w transaction collection2 = (Inr response, collection2')"
  from a show "take (length collection2) collection2' = collection2"
    by (elim score_transaction_InrE) simp
  from a show "length collection2' = length collection2 + 1"
    by (elim score_transaction_InrE) simp
  from a show "map_of (last collection2') ''top_risk_indicators'' \<noteq> None"
    by (elim score_transaction_InrE) simp
  from a show "map_of (last collection2') ''top_risk_indicators'' =
        map_of response ''top_risk_indicators''"
    by (elim score_transaction_InrE) simp
qed

theorem persisted_schemas_differ_witness:
  "auto_generate_transactions picky_classifier [(\<lambda>i. 1 / 10, example_env)] [] =
     (None, [[(''input'', Dict (generate_random_transaction (\<lambda>i. 1 / 10))),
            (''fraud_probability'', Float (9 / 10)), (''risk_level'', Str ''High''),
            (''decision'', Str ''Block''), (''timestamp'', Datetime 1700000000),
            (''_id'', ObjectId 7)]])
   \<and> list_all (\<lambda>d. map_of d ''top_risk_indicators'' = None)
        [[(''input'', Dict (generate_random_transaction (\<lambda>i. 1 / 10))),
            (''fraud_probability'', Float (9 / 10)), (''risk_level'', Str ''High''),
            (''decision'', Str ''Block''), (''timestamp'', Datetime 1700000000),
            (''_id'', ObjectId 7)]]
   \<and> map_of (last (snd (score_transaction stable_argsort (stub_classifier (3 / 4)) example_env
         example_transaction []))) ''top_risk_indicators'' =
       Some (StrList [''V12'', ''V17'', ''V14''])"
  using persisted_schemas_differ [of picky_classifier "[(\<lambda>i. 1 / 10, example_env)]" "[]" None
      "[[(''input'', Dict (generate_random_transaction (\<lambda>i. 1 / 10))),
            (''fraud_probability'', Float (9 / 10)), (''risk_level'', Str ''High''),
            (''decision'', Str ''Block''), (''timestamp'', Datetime 1700000000),
            (''_id'', ObjectId 7)]]"
      stable_argsort "stub_classifier (3 / 4)" example_env example_transaction "[]"]
    loop_example [of "[]"]
  by (simp add: score_example)

subsection \<open>The two scoring paths\<close>

text \<open>
  Claim C10. Let the generator produce the features of a submitted transaction, let the
  classifier output on them be the same \<open>p\<close> in both paths, and let both run in a
  working environment. Then the loop iteration stores a document, the request returns
  a response and stores a document, and the three carry the same fraud probability
  (\<open>p\<close> rounded to 4 decimals), the same risk level and the same decision, those
  that the thresholds give for \<open>p\<close>.
\<close>

theorem both_paths_same_evaluation:
  assumes "generate_random_transaction rnd = dict transaction"
    and "predict_proba m1 (map snd (dict transaction)) = Inr p"
    and "predict_proba m2 (map snd (dict transaction)) = Inr p"
    and "length (feature_importances m2) = 30"
    and "is_argsort_of (feature_importances m2) (argsort (feature_importances m2))"
    and "\<not> insert_fails w1"
    and "\<not> insert_fails w2"
  shows "\<exists>c1' response c2'.
           auto_generate_transactions m1 [(rnd, w1)] c1 = (None, c1')
         \<and> score_transaction argsort m2 w2 transaction c2 = (Inr response, c2')
         \<and> map_of (last c1') ''fraud_probability'' = Some (Float (py_round p 4))
         \<and> map_of (last c1') ''risk_level'' =
             Some (Str (if p > 0.75 then ''High''
                        else if p > float_0_40 then ''Medium'' else ''Low''))
         \<and> map_of (last c1') ''decision'' =
             Some (Str (if p > 0.75 then ''Block''
                        else if p > float_0_40 then ''Review'' else ''Approve''))
         \<and> map_of (last c2') ''fraud_probability'' = map_of (last c1') ''fraud_probability''
         \<and> map_of (last c2') ''risk_level'' = map_of (last c1') ''risk_level''
         \<and> map_of (last c2') ''decision'' = map_of (last c1') ''decision''
         \<and> map_of response ''fraud_probability'' = map_of (last c1') ''fraud_probability''
         \<and> map_of response ''risk_level'' = map_of (last c1') ''risk_level''
         \<and> map_of response ''decision'' = map_of (last c1') ''decision''"
proof -
  from assms(1,2)
  have p1: "predict_proba m1 (map snd (generate_random_transaction rnd)) = Inr p" by simp
  show ?thesis
    unfolding auto_generate_transactions_step p1
      score_transaction_returns [where argsort = argsort, OF assms(3,4,5,7)]
    using assms(6) by simp
qed

theorem both_paths_same_evaluation_witness:
  "\<exists>c1' response c2'.
     auto_generate_transactions (stub_classifier (7 / 8)) [(\<lambda>i. 1 / 2, example_env)] [] =
       (None, c1')
     \<and> score_transaction stable_argsort (stub_classifier (7 / 8)) example_env
         midpoint_transaction [] = (Inr response, c2')
     \<and> map_of (last c1') ''risk_level'' = Some (Str ''High'')
     \<and> map_of (last c2') ''risk_level'' = Some (Str ''High'')
     \<and> map_of response ''risk_level'' = Some (Str ''High'')
     \<and> map_of (last c1') ''decision'' = Some (Str ''Block'')
     \<and> map_of (last c2') ''decision'' = Some (Str ''Block'')
     \<and> map_of response ''decision'' = Some (Str ''Block'')
     \<and> map_of (last c1') ''fraud_probability'' = Some (Float (7 / 8))
     \<and> map_of (last c2') ''fraud_probability'' = Some (Float (7 / 8))
     \<and> map_of response ''fraud_probability'' = Some (Float (7 / 8))"
proof -
  have w: "\<not> insert_fails example_env" by (simp add: example_env_fields)
  from both_paths_same_evaluation [where argsort = stable_argsort
      and ?m1.0 = "stub_classifier (7 / 8)" and ?m2.0 = "stub_classifier (7 / 8)"
      and p = "7 / 8" and rnd = "\<lambda>i. 1 / 2" and transaction = midpoint_transaction
      and ?w1.0 = example_env and ?w2.0 = example_env and ?c1.0 = "[]" and ?c2.0 = "[]",
      OF generate_midpoint stub_classifier_fields(1) stub_classifier_fields(1,3,4) w w]
  obtain c1' response c2' where
    "auto_generate_transactions (stub_classifier (7 / 8)) [(\<lambda>i. 1 / 2, example_env)] [] =
       (None, c1')"
    "score_transaction stable_argsort (stub_classifier (7 / 8)) example_env
         midpoint_transaction [] = (Inr response, c2')"
    "map_of (last c1') ''fraud_probability'' = Some (Float (py_round (7 / 8) 4))"
    "map_of (last c1') ''risk_level'' =
       Some (Str (if (7 / 8 :: real) > 0.75 then ''High''
                  else if 7 / 8 > float_0_40 then ''Medium'' else ''Low''))"
    "map_of (last c1') ''decision'' =
       Some (Str (if (7 / 8 :: real) > 0.75 then ''Block''
                  else if 7 / 8 > float_0_40 then ''Review'' else ''Approve''))"
    "map_of (last c2') ''fraud_probability'' = map_of (last c1') ''fraud_probability''"
    "map_of (last c2') ''risk_level'' = map_of (last c1') ''risk_level''"
    "map_of (last c2') ''decision'' = map_of (last c1') ''decision''"
    "map_of response ''fraud_probability'' = map_of (last c1') ''fraud_probability''"
    "map_of response ''risk_level'' = map_of (last c1') ''risk_level''"
    "map_of response ''decision'' = map_of (last c1') ''decision''"
    by (elim exE conjE) (rule that; assumption)
  then show ?thesis
    by (intro exI [of _ c1'] exI [of _ response] exI [of _ c2'])
      (simp add: py_round_seven_eighths del: auto_generate_transactions.simps)
qed

end
